theory Spec2Isabelle
  imports Complex_Main "HOL-Library.Word" "HOL-Library.AList"
begin

section \<open>Bollar Money: the CDP operations of the technical design\<close>

text \<open>
  The protocol's operations exist in the repository as the Rust of
  \<^verbatim>\<open>technical-design.md\<close> (\<^verbatim>\<open>mint_bollar\<close>, \<^verbatim>\<open>close_cdp\<close>, \<^verbatim>\<open>liquidate_cdp\<close>), the ratio as
  the function \<^verbatim>\<open>calculate_collateral_ratio(collateral: u64, debt: u64) -> f64\<close> of the
  code-style section that \<^verbatim>\<open>docs/ARCHITECTURE.md\<close> carries, and the remaining arithmetic
  only as calls in the unit tests of \<^verbatim>\<open>docs/TEST_STRATEGY.md\<close>.
\<close>

type_synonym u64 = "64 word"
type_synonym u32 = "32 word"
type_synonym Principal = string

subsection \<open>RatioCalculator\<close>

datatype arith_error = DivisionByZero

text \<open>
  An \<^verbatim>\<open>f64\<close> is the real number it denotes. The conversion \<^verbatim>\<open>as f64\<close> and the division
  round their exact result to a representable number; the rounding is the parameter
  \<open>rnd\<close> of the definitions, and the theorems ask of it only what rounding to nearest
  has: it is monotone and leaves 0, 1 and 2^64 as they are. \<^verbatim>\<open>f64::MAX\<close> is
  \<^verbatim>\<open>(2 - 2^-52) * 2^1023\<close>, that is \<^verbatim>\<open>(2^53 - 1) * 2^971\<close>.
\<close>

definition f64_MAX :: real where
  "f64_MAX = (2 ^ 53 - 1) * 2 ^ 971"

text \<open>The division of two \<^verbatim>\<open>f64\<close>, with a zero divisor kept apart from a value.\<close>

definition f64_div :: "(real \<Rightarrow> real) \<Rightarrow> real \<Rightarrow> real \<Rightarrow> arith_error + real" where
  "f64_div rnd a b = (if b = 0 then Inl DivisionByZero else Inr (rnd (a / b)))"

text \<open>
  \<^verbatim>\<open>calculate_collateral_ratio\<close> as the repository has it:
  \<^verbatim>\<open>if debt == 0 { return f64::MAX; } collateral as f64 / debt as f64\<close>.
\<close>

definition calculate_collateral_ratio ::
  "(real \<Rightarrow> real) \<Rightarrow> u64 \<Rightarrow> u64 \<Rightarrow> arith_error + real" where
  "calculate_collateral_ratio rnd collateral debt =
     (if debt = 0 then Inr f64_MAX
      else f64_div rnd (rnd (real (unat collateral))) (rnd (real (unat debt))))"

text \<open>
  Modelled from the spec: \<^verbatim>\<open>collateral_value(collateral_amount, price)\<close> has no body in the
  repository. Section 4.2 asks for integer arithmetic in a wide intermediate type and the
  scenario of section 8 values 100,000,000 units at price 65,000 as 100,000,000*65,000/1;
  the product is taken in the unbounded naturals.
\<close>

definition collateral_value :: "nat \<Rightarrow> nat \<Rightarrow> nat" where
  "collateral_value collateral_amount price = collateral_amount * price"

text \<open>
  Modelled from the spec: \<^verbatim>\<open>max_mintable(collateral_amount, already_minted, price,
  max_ratio_bps)\<close> of section 4.2 is
  \<^verbatim>\<open>max(0, collateral_value * max_ratio_bps / 10000 - already_minted)\<close>. On the naturals
  the subtraction stops at 0, which is the \<^verbatim>\<open>max(0, _)\<close> of the spec.
\<close>

definition max_mintable :: "nat \<Rightarrow> nat \<Rightarrow> nat \<Rightarrow> nat \<Rightarrow> nat" where
  "max_mintable collateral_amount already_minted price max_ratio_bps =
     collateral_value collateral_amount price * max_ratio_bps div 10000 - already_minted"

text \<open>
  Modelled from the spec: \<^verbatim>\<open>should_liquidate(collateral_value, minted_amount,
  liquidation_threshold)\<close> is called by the liquidation tests and has no body in the
  repository. Section 4.2 (\<^verbatim>\<open>is_liquidatable\<close>): the debt is positive and the ratio in basis
  points, \<^verbatim>\<open>collateral_value * 10000 / minted_amount\<close>, is below the threshold. The
  division is behind the test of the debt.
\<close>

definition should_liquidate :: "nat \<Rightarrow> nat \<Rightarrow> nat \<Rightarrow> bool" where
  "should_liquidate value minted_amount liquidation_threshold =
     (if minted_amount = 0 then False
      else value * 10000 div minted_amount < liquidation_threshold)"

text \<open>
  Modelled from the spec: \<^verbatim>\<open>liquidation_split(collateral_amount, penalty_bps)\<close> of section
  4.2 returns \<^verbatim>\<open>(owner_share, liquidator_reward)\<close> with
  \<^verbatim>\<open>reward = collateral_amount * penalty_bps / 10000\<close> and
  \<^verbatim>\<open>owner_share = collateral_amount - reward\<close>.
\<close>

definition liquidation_split :: "nat \<Rightarrow> nat \<Rightarrow> nat \<times> nat" where
  "liquidation_split collateral_amount penalty_bps =
     (let reward = collateral_amount * penalty_bps div 10000
      in (collateral_amount - reward, reward))"

subsection \<open>Data model\<close>

datatype CDPStatus = Active | Liquidated | Closed

record CDP =
  id_cdp :: u64
  owner :: Principal
  btc_tx_hash :: string
  collateral_amount :: u64
  minted_bollar :: u64
  collateral_ratio :: u32
  liquidation_price :: u64
  created_at :: u64
  last_updated :: u64
  status :: CDPStatus
  version :: u32

record SystemConfig =
  max_collateral_ratio :: u32
  liquidation_threshold :: u32
  liquidation_penalty :: u32
  min_collateral_amount :: u64
  max_collateral_amount :: u64
  oracle_timeout :: u64
  emergency_pause :: bool
  admin_principals :: "Principal list"

record PriceData =
  btc_price :: u64
  timestamp :: u64
  source :: string
  confidence :: u32
  signature :: "8 word list"

text \<open>
  The arguments of the two messages the operations format into an error: the
  \<^verbatim>\<open>format!("Requested {} exceeds max {} cents", amount_cents, max_mintable)\<close> of
  \<^verbatim>\<open>mint_bollar\<close> keeps its two numbers, a literal message keeps its text.
\<close>

datatype message = Text string | Requested_exceeds_max u64 u64

datatype ProtocolError =
    InvalidAmount message
  | InvalidAddress message
  | InsufficientCollateral message
  | CDPNotFound
  | CDPAlreadyLiquidated
  | InvalidOperation message
  | OraclePriceError
  | RunesOperationFailed
  | UnauthorizedAccess

record MintResult =
  tx_hash :: string
  new_ratio :: u32

record CloseResult =
  btc_release_tx :: string
  bollar_burn_tx :: string
  released_amount :: u64

record LiquidationResult =
  bollar_burned :: u64
  btc_transferred :: u64
  liquidation_reward :: u64

text \<open>
  The canister's state is \<^verbatim>\<open>CDP_REGISTRY\<close>, an ordered map from CDP id to record, here an
  association list read with \<^const>\<open>map_of\<close> and written with \<^const>\<open>AList.update\<close>, and
  the aggregate totals.
\<close>

text \<open>
  Modelled from the spec: the aggregate totals \<^verbatim>\<open>total_collateral\<close> and \<^verbatim>\<open>total_minted\<close>
  of sections 4.3 and 5. The repository reads them with \<^verbatim>\<open>get_total_collateral()\<close> and
  \<^verbatim>\<open>get_total_minted()\<close> and stores \<^verbatim>\<open>mint_stats: MintStats\<close>, whose declaration is missing.
\<close>

record canister =
  cdp_registry :: "(u64 \<times> CDP) list"
  total_collateral :: u64
  total_minted :: u64

text \<open>
  The functions that the operations call and whose bodies are not in the repository, as
  parameters: \<^verbatim>\<open>get_current_price()\<close>, \<^verbatim>\<open>calculate_max_mintable(collateral_amount,
  current_price)\<close>, \<^verbatim>\<open>calculate_collateral_ratio(&cdp)\<close>, \<^verbatim>\<open>is_liquidatable(&cdp)\<close> and
  \<^verbatim>\<open>calculate_liquidation_reward(&cdp)\<close>. Each has the type of its call site.
\<close>

record helpers =
  get_current_price :: u64
  calculate_max_mintable :: "u64 \<Rightarrow> u64 \<Rightarrow> u64"
  calculate_collateral_ratio_cdp :: "CDP \<Rightarrow> u32"
  is_liquidatable :: "CDP \<Rightarrow> bool"
  calculate_liquidation_reward :: "CDP \<Rightarrow> u64"

text \<open>
  What the external collaborators answer during one call: the clock
  (\<^verbatim>\<open>ic_cdk::api::time()\<close>), the Runes protocol (\<^verbatim>\<open>mint_bollar\<close>, \<^verbatim>\<open>burn_bollar\<close>,
  \<^verbatim>\<open>balance_of\<close>) and the Bitcoin transfers (\<^verbatim>\<open>release_btc_collateral\<close>,
  \<^verbatim>\<open>transfer_btc_to_liquidator\<close>). Each call is followed by \<^verbatim>\<open>?\<close> in the source, so an
  error of the collaborator is the error of the operation.
\<close>

record ext =
  time :: u64
  runes_mint_bollar :: "ProtocolError + string"
  runes_burn_bollar :: "ProtocolError + string"
  runes_balance_of :: "ProtocolError + u64"
  release_btc_collateral :: "ProtocolError + string"
  transfer_btc_to_liquidator :: "ProtocolError + string"

text \<open>What an operation asked of the collaborators, in the order of the calls that succeeded.\<close>

datatype effect =
    Runes_mint Principal u64
  | Runes_burn Principal u64
  | Release_btc string Principal
  | Transfer_btc string Principal u64
  | Audit_liquidation u64 Principal u64

subsection \<open>Operations\<close>

text \<open>
  Every operation returns its answer, the state it leaves and the effects it had. The
  source returns early before it writes, so the state of a failed call is the state it
  was given. The \<^verbatim>\<open>u64\<close> arithmetic of the source (\<^verbatim>\<open>+=\<close>, \<^verbatim>\<open>-\<close>) is that of a release build:
  it wraps.
\<close>

definition mint_bollar ::
  "helpers \<Rightarrow> ext \<Rightarrow> Principal \<Rightarrow> canister \<Rightarrow> u64 \<Rightarrow> u64
     \<Rightarrow> (ProtocolError + MintResult) \<times> canister \<times> effect list" where
  "mint_bollar h x caller s cdp_id amount_cents =
     (case map_of (cdp_registry s) cdp_id of
        None \<Rightarrow> (Inl CDPNotFound, s, [])
      | Some cdp \<Rightarrow>
          if owner cdp \<noteq> caller then (Inl UnauthorizedAccess, s, [])
          else
            let current_price = get_current_price h;
                max_mintable = calculate_max_mintable h (collateral_amount cdp) current_price
            in
              if amount_cents > max_mintable
              then (Inl (InsufficientCollateral (Requested_exceeds_max amount_cents max_mintable)),
                    s, [])
              else
                (case runes_mint_bollar x of
                   Inl e \<Rightarrow> (Inl e, s, [])
                 | Inr mint_tx \<Rightarrow>
                     let cdp' = cdp\<lparr>minted_bollar := minted_bollar cdp + amount_cents,
                                    last_updated := time x\<rparr>
                     in (Inr \<lparr>tx_hash = mint_tx,
                              new_ratio = calculate_collateral_ratio_cdp h cdp'\<rparr>,
                         s\<lparr>cdp_registry := AList.update cdp_id cdp' (cdp_registry s)\<rparr>,
                         [Runes_mint (owner cdp) amount_cents])))"

definition close_cdp ::
  "ext \<Rightarrow> Principal \<Rightarrow> canister \<Rightarrow> u64 \<Rightarrow> u64
     \<Rightarrow> (ProtocolError + CloseResult) \<times> canister \<times> effect list" where
  "close_cdp x caller s cdp_id bollar_amount =
     (case map_of (cdp_registry s) cdp_id of
        None \<Rightarrow> (Inl CDPNotFound, s, [])
      | Some cdp \<Rightarrow>
          if owner cdp \<noteq> caller then (Inl UnauthorizedAccess, s, [])
          else if status cdp \<noteq> Active then (Inl CDPAlreadyLiquidated, s, [])
          else if bollar_amount < minted_bollar cdp
          then (Inl (InsufficientCollateral (Text ''Insufficient Bollar to close CDP'')), s, [])
          else
            (case runes_burn_bollar x of
               Inl e \<Rightarrow> (Inl e, s, [])
             | Inr burn_tx \<Rightarrow>
                 (case release_btc_collateral x of
                    Inl e \<Rightarrow> (Inl e, s, [Runes_burn (owner cdp) (minted_bollar cdp)])
                  | Inr release_tx \<Rightarrow>
                      let cdp' = cdp\<lparr>status := Closed\<rparr>
                      in (Inr \<lparr>btc_release_tx = release_tx,
                               bollar_burn_tx = burn_tx,
                               released_amount = collateral_amount cdp'\<rparr>,
                          s\<lparr>cdp_registry := AList.update cdp_id cdp' (cdp_registry s)\<rparr>,
                          [Runes_burn (owner cdp) (minted_bollar cdp),
                           Release_btc (btc_tx_hash cdp) (owner cdp)]))))"

definition liquidate_cdp ::
  "helpers \<Rightarrow> ext \<Rightarrow> Principal \<Rightarrow> canister \<Rightarrow> u64 \<Rightarrow> u64
     \<Rightarrow> (ProtocolError + LiquidationResult) \<times> canister \<times> effect list" where
  "liquidate_cdp h x caller s cdp_id bollar_amount =
     (case map_of (cdp_registry s) cdp_id of
        None \<Rightarrow> (Inl CDPNotFound, s, [])
      | Some cdp \<Rightarrow>
          if \<not> is_liquidatable h cdp
          then (Inl (InvalidOperation (Text ''CDP not eligible for liquidation'')), s, [])
          else
            let reward = calculate_liquidation_reward h cdp;
                liquidator_amount = collateral_amount cdp - reward
            in
              (case runes_balance_of x of
                 Inl e \<Rightarrow> (Inl e, s, [])
               | Inr liquidator_balance \<Rightarrow>
                   if liquidator_balance < bollar_amount
                   then (Inl (InsufficientCollateral (Text ''Insufficient Bollar for liquidation'')),
                         s, [])
                   else
                     (case runes_burn_bollar x of
                        Inl e \<Rightarrow> (Inl e, s, [])
                      | Inr burn_tx \<Rightarrow>
                          (case transfer_btc_to_liquidator x of
                             Inl e \<Rightarrow> (Inl e, s, [Runes_burn caller (minted_bollar cdp)])
                           | Inr transfer_tx \<Rightarrow>
                               let cdp' = cdp\<lparr>status := Liquidated\<rparr>
                               in (Inr \<lparr>bollar_burned = minted_bollar cdp',
                                        btc_transferred = liquidator_amount,
                                        liquidation_reward = reward\<rparr>,
                                   s\<lparr>cdp_registry := AList.update cdp_id cdp' (cdp_registry s)\<rparr>,
                                   [Runes_burn caller (minted_bollar cdp),
                                    Transfer_btc (btc_tx_hash cdp) caller liquidator_amount,
                                    Audit_liquidation cdp_id caller reward])))))"

text \<open>
  Modelled from the spec: the helpers that have no body, for a configuration and the price
  that \<^verbatim>\<open>get_current_price()\<close> returns. \<^verbatim>\<open>calculate_max_mintable\<close> is \<^const>\<open>max_mintable\<close>
  with \<^verbatim>\<open>max_collateral_ratio\<close>; it receives the collateral and the price only, so the
  debt argument of \<^const>\<open>max_mintable\<close> is 0 at this call site.
  \<^verbatim>\<open>calculate_collateral_ratio(&cdp)\<close>, of one argument, is the ratio of the record in basis
  points as section 4.2 has it, in the width of \<^verbatim>\<open>CDP.collateral_ratio\<close>.
  \<^verbatim>\<open>is_liquidatable(&cdp)\<close> receives the whole record: it holds of an Active position
  (section 4.4 scans the Active CDPs, and the price update flow of the technical design
  marks active CDPs) that \<^const>\<open>should_liquidate\<close> with \<^verbatim>\<open>liquidation_threshold\<close>.
  \<^verbatim>\<open>calculate_liquidation_reward(&cdp)\<close> is the reward of \<^const>\<open>liquidation_split\<close> with
  \<^verbatim>\<open>liquidation_penalty\<close>. The results are computed in the naturals and stored in the
  width of the call site.
\<close>

definition spec_helpers :: "SystemConfig \<Rightarrow> u64 \<Rightarrow> helpers" where
  "spec_helpers cfg price =
     \<lparr>get_current_price = price,
      calculate_max_mintable =
        (\<lambda>collateral current_price.
           of_nat (max_mintable (unat collateral) 0 (unat current_price)
                     (unat (max_collateral_ratio cfg)))),
      calculate_collateral_ratio_cdp =
        (\<lambda>cdp. if minted_bollar cdp = 0 then 10000
               else of_nat (collateral_value (unat (collateral_amount cdp)) (unat price)
                              * 10000 div unat (minted_bollar cdp))),
      is_liquidatable =
        (\<lambda>cdp. status cdp = Active \<and>
               should_liquidate
                 (collateral_value (unat (collateral_amount cdp)) (unat price))
                 (unat (minted_bollar cdp)) (unat (liquidation_threshold cfg))),
      calculate_liquidation_reward =
        (\<lambda>cdp. of_nat (snd (liquidation_split (unat (collateral_amount cdp))
                                (unat (liquidation_penalty cfg)))))\<rparr>"

text \<open>
  Modelled from the spec: section 4.1 keeps the last accepted sample usable, as degraded,
  until the extended window \<^verbatim>\<open>extended_ttl\<close> (15 minutes, 900 seconds) has elapsed since it
  was observed; after that no valid sample exists. The repository has no body for the
  price feed. A sample is stamped in seconds, the clock \<^verbatim>\<open>ic_cdk::api::time()\<close> reads
  nanoseconds.
\<close>

definition price_unavailable :: "PriceData \<Rightarrow> u64 \<Rightarrow> bool" where
  "price_unavailable sample now = (unat (timestamp sample) + 900 < unat now div 1000000000)"

text \<open>
  Modelled from the spec: \<^verbatim>\<open>get_current_price()\<close> has no body in the repository and is
  called for a plain value. The architecture document says of a failed fetch "use last
  valid price": the price of the last accepted sample, whatever the clock reads.
\<close>

definition last_valid_price :: "PriceData \<Rightarrow> u64 \<Rightarrow> u64" where
  "last_valid_price sample now = btc_price sample"

subsection \<open>A configuration, a position and a canister to run the operations on\<close>

text \<open>The values the comments of \<^verbatim>\<open>SystemConfig\<close> give: 90%, 85%, 5%, 0.001 to 1000 BTC.\<close>

definition default_config :: SystemConfig where
  "default_config =
     \<lparr>max_collateral_ratio = 9000, liquidation_threshold = 8500, liquidation_penalty = 500,
      min_collateral_amount = 100000, max_collateral_amount = 100000000000,
      oracle_timeout = 300, emergency_pause = False, admin_principals = []\<rparr>"

text \<open>Position 1 of alice: 100,000,000 units of collateral, with a given debt and status.\<close>

definition example_cdp :: "u64 \<Rightarrow> CDPStatus \<Rightarrow> CDP" where
  "example_cdp minted st =
     \<lparr>id_cdp = 1, owner = ''alice'', btc_tx_hash = ''tx'', collateral_amount = 100000000,
      minted_bollar = minted, collateral_ratio = 0, liquidation_price = 0, created_at = 0,
      last_updated = 0, status = st, version = 1\<rparr>"

text \<open>A canister that holds this one position, its totals equal to the position's amounts.\<close>

definition example_canister :: "u64 \<Rightarrow> CDPStatus \<Rightarrow> canister" where
  "example_canister minted st =
     \<lparr>cdp_registry = [(1, example_cdp minted st)], total_collateral = 100000000,
      total_minted = minted\<rparr>"

text \<open>Collaborators that answer every call: the clock reads 0, the caller holds 10^13 Bollar.\<close>

definition ext_ok :: ext where
  "ext_ok =
     \<lparr>time = 0, runes_mint_bollar = Inr ''mint'', runes_burn_bollar = Inr ''burn'',
      runes_balance_of = Inr 10000000000000, release_btc_collateral = Inr ''release'',
      transfer_btc_to_liquidator = Inr ''transfer''\<rparr>"

text \<open>A price sample observed at time 0.\<close>

definition stale_sample :: PriceData where
  "stale_sample =
     \<lparr>btc_price = 65000, timestamp = 0, source = ''icp_oracle'', confidence = 9900,
      signature = []\<rparr>"

text \<open>The same collaborators 1,000,000 seconds after that sample was observed.\<close>

definition ext_late :: ext where
  "ext_late = ext_ok\<lparr>time := 1000000000000000\<rparr>"

lemmas fixture_defs = default_config_def example_cdp_def example_canister_def ext_ok_def

lemmas ratio_defs = max_mintable_def collateral_value_def should_liquidate_def
  liquidation_split_def

section \<open>The ratio arithmetic\<close>

lemma should_liquidate_test_vectors:
  "should_liquidate 80000000 100000000 8500"
  "\<not> should_liquidate 100000000 100000000 8500"
  by (simp_all add: should_liquidate_def)

lemma liquidation_split_example:
  "liquidation_split 100000000 500 = (95000000, 5000000)"
  by (simp add: liquidation_split_def)

lemma reward_le_collateral:
  assumes "pen \<le> 10000"
  shows "(c::nat) * pen div 10000 \<le> c"
proof -
  have "c * pen div 10000 \<le> c * 10000 div 10000"
    using assms by (intro div_le_mono mult_le_mono2)
  then show ?thesis by simp
qed

lemma liquidation_split_sum:
  assumes "penalty_bps \<le> 10000"
  shows "fst (liquidation_split c penalty_bps) + snd (liquidation_split c penalty_bps) = c"
  using reward_le_collateral [OF assms, of c] by (simp add: liquidation_split_def Let_def)

subsection \<open>The ratio of the repository\<close>

lemma two_64_le_f64_MAX: "2 ^ 64 \<le> f64_MAX"
proof -
  have "(2::real) ^ 64 \<le> 2 ^ 971"
    by (rule power_increasing) simp_all
  also have "\<dots> \<le> (2 ^ 53 - 1) * 2 ^ 971"
    by simp
  finally show ?thesis by (simp add: f64_MAX_def)
qed

lemma rnd_u64_bounds:
  assumes "mono rnd" "rnd 0 = 0" "rnd (2 ^ 64) = 2 ^ 64"
  shows "0 \<le> rnd (real (unat (w::u64)))" and "rnd (real (unat w)) \<le> 2 ^ 64"
proof -
  have "rnd 0 \<le> rnd (real (unat w))"
    using assms(1) by (rule monoD) (rule of_nat_0_le_iff)
  then show "0 \<le> rnd (real (unat w))"
    using assms(2) by simp
  have "unat w < 2 ^ 64"
    using unsigned_less [of w] by simp
  then have "real (unat w) \<le> 2 ^ 64"
    by (metis less_imp_le of_nat_le_iff of_nat_numeral of_nat_power)
  then have "rnd (real (unat w)) \<le> rnd (2 ^ 64)"
    using assms(1) by (rule monoD [rotated])
  then show "rnd (real (unat w)) \<le> 2 ^ 64"
    using assms(3) by simp
qed

lemma rnd_debt_ge_1:
  assumes "mono rnd" "rnd 1 = 1" "(d::u64) \<noteq> 0"
  shows "1 \<le> rnd (real (unat d))"
proof -
  have "unat d \<noteq> 0"
    using assms(3) by (simp add: unat_eq_0)
  then have "1 \<le> real (unat d)"
    by (simp del: of_nat_unat)
  then have "rnd 1 \<le> rnd (real (unat d))"
    using assms(1) by (rule monoD [rotated])
  then show ?thesis
    using assms(2) by simp
qed

lemma calculate_collateral_ratio_positive_debt:
  assumes "mono rnd" "rnd 1 = 1" "d \<noteq> 0"
  shows "calculate_collateral_ratio rnd c d
           = Inr (rnd (rnd (real (unat c)) / rnd (real (unat d))))"
  using rnd_debt_ge_1 [OF assms]
  by (simp add: calculate_collateral_ratio_def f64_div_def assms(3))

text \<open>
  C6, as stated, fails at a debt of 0: the function returns \<^verbatim>\<open>f64::MAX\<close>, which is not
  10000.
\<close>

theorem calculate_collateral_ratio_sentinel_is_f64_MAX:
  "calculate_collateral_ratio (\<lambda>x. x) 65000000 0 = Inr f64_MAX
   \<and> (10000::real) < f64_MAX"
proof -
  have "(10000::real) < 2 ^ 64"
    by simp
  then have "(10000::real) < f64_MAX"
    using two_64_le_f64_MAX by (rule less_le_trans)
  then show ?thesis
    by (simp add: calculate_collateral_ratio_def)
qed

text \<open>
  C6, amended. With no debt \<^verbatim>\<open>calculate_collateral_ratio\<close> returns the sentinel
  \<^verbatim>\<open>f64::MAX\<close> and nothing is divided; the division is never reached with a zero divisor,
  whatever the input.
\<close>

theorem calculate_collateral_ratio_guard:
  assumes "mono rnd" and "rnd 1 = 1"
  shows "calculate_collateral_ratio rnd c 0 = Inr f64_MAX
       \<and> calculate_collateral_ratio rnd c d \<noteq> Inl DivisionByZero"
proof (cases "d = 0")
  case True
  then show ?thesis by (simp add: calculate_collateral_ratio_def)
next
  case False
  show ?thesis
    using calculate_collateral_ratio_positive_debt [OF assms False, of c]
    by (simp add: calculate_collateral_ratio_def)
qed

theorem calculate_collateral_ratio_guard_witness:
  "mono (\<lambda>x::real. x)
   \<and> calculate_collateral_ratio (\<lambda>x. x) 65000000 0 = Inr f64_MAX
   \<and> calculate_collateral_ratio (\<lambda>x. x) 65000000 50000000 = Inr (13 / 10)"
  using calculate_collateral_ratio_guard [of "\<lambda>x. x" 65000000 50000000]
  by (simp add: calculate_collateral_ratio_def f64_div_def mono_def)

text \<open>
  C9. With the value of the collateral fixed, the ratio does not increase when the debt
  grows, the debt of 0 with its sentinel included; with the collateral and the debt fixed,
  it does not decrease when the price grows, as long as the value of the collateral is a
  \<^verbatim>\<open>u64\<close>.
\<close>

theorem calculate_collateral_ratio_monotone:
  assumes rnd: "mono rnd" "rnd 0 = 0" "rnd 1 = 1" "rnd (2 ^ 64) = 2 ^ 64"
    and debt: "m1 \<le> m2"
    and price: "p1 \<le> p2"
    and fits: "collateral_value c p2 < 2 ^ 64"
  shows "(\<exists>r1 r2. calculate_collateral_ratio rnd v m1 = Inr r1
            \<and> calculate_collateral_ratio rnd v m2 = Inr r2 \<and> r2 \<le> r1)
       \<and> (\<exists>r1 r2. calculate_collateral_ratio rnd (of_nat (collateral_value c p1)) m = Inr r1
            \<and> calculate_collateral_ratio rnd (of_nat (collateral_value c p2)) m = Inr r2
            \<and> r1 \<le> r2)"
proof
  show "\<exists>r1 r2. calculate_collateral_ratio rnd v m1 = Inr r1
          \<and> calculate_collateral_ratio rnd v m2 = Inr r2 \<and> r2 \<le> r1"
  proof (cases "m2 = 0")
    case True
    with debt have "m1 = 0" by simp
    with True show ?thesis by (simp add: calculate_collateral_ratio_def)
  next
    case m2: False
    let ?n = "rnd (real (unat v))"
    have n: "0 \<le> ?n" "?n \<le> 2 ^ 64"
      using rnd_u64_bounds [OF rnd(1,2,4)] by simp_all
    have d2: "1 \<le> rnd (real (unat m2))"
      using rnd(1,3) m2 by (rule rnd_debt_ge_1)
    have r2: "calculate_collateral_ratio rnd v m2 = Inr (rnd (?n / rnd (real (unat m2))))"
      using rnd(1,3) m2 by (rule calculate_collateral_ratio_positive_debt)
    show ?thesis
    proof (cases "m1 = 0")
      case True
      have "?n / rnd (real (unat m2)) \<le> ?n / 1"
        using n(1) d2 by (intro divide_left_mono) simp_all
      then have "?n / rnd (real (unat m2)) \<le> 2 ^ 64"
        using n(2) by simp
      then have "rnd (?n / rnd (real (unat m2))) \<le> rnd (2 ^ 64)"
        using rnd(1) by (rule monoD [rotated])
      then have "rnd (?n / rnd (real (unat m2))) \<le> f64_MAX"
        using rnd(4) two_64_le_f64_MAX by simp
      with True r2 show ?thesis
        by (simp add: calculate_collateral_ratio_def)
    next
      case m1: False
      have d1: "1 \<le> rnd (real (unat m1))"
        using rnd(1,3) m1 by (rule rnd_debt_ge_1)
      have r1: "calculate_collateral_ratio rnd v m1 = Inr (rnd (?n / rnd (real (unat m1))))"
        using rnd(1,3) m1 by (rule calculate_collateral_ratio_positive_debt)
      have "unat m1 \<le> unat m2"
        using debt by (simp add: word_le_nat_alt)
      then have "real (unat m1) \<le> real (unat m2)"
        by (simp del: of_nat_unat)
      then have "rnd (real (unat m1)) \<le> rnd (real (unat m2))"
        using rnd(1) by (rule monoD [rotated])
      then have "?n / rnd (real (unat m2)) \<le> ?n / rnd (real (unat m1))"
        using n(1) d1 by (intro divide_left_mono) simp_all
      then have "rnd (?n / rnd (real (unat m2))) \<le> rnd (?n / rnd (real (unat m1)))"
        using rnd(1) by (rule monoD [rotated])
      with r1 r2 show ?thesis by simp
    qed
  qed
next
  let ?v1 = "of_nat (collateral_value c p1) :: u64"
  let ?v2 = "of_nat (collateral_value c p2) :: u64"
  have le: "collateral_value c p1 \<le> collateral_value c p2"
    using price by (simp add: collateral_value_def)
  with fits have fits1: "collateral_value c p1 < 2 ^ 64"
    by simp
  have "unat ?v1 = collateral_value c p1" "unat ?v2 = collateral_value c p2"
    using fits fits1 by (simp_all add: unat_of_nat)
  with le have "real (unat ?v1) \<le> real (unat ?v2)"
    by simp
  then have num: "rnd (real (unat ?v1)) \<le> rnd (real (unat ?v2))"
    using rnd(1) by (rule monoD [rotated])
  show "\<exists>r1 r2. calculate_collateral_ratio rnd ?v1 m = Inr r1
          \<and> calculate_collateral_ratio rnd ?v2 m = Inr r2 \<and> r1 \<le> r2"
  proof (cases "m = 0")
    case True
    then show ?thesis by (simp add: calculate_collateral_ratio_def)
  next
    case False
    have d: "1 \<le> rnd (real (unat m))"
      using rnd(1,3) False by (rule rnd_debt_ge_1)
    have "rnd (real (unat ?v1)) / rnd (real (unat m))
            \<le> rnd (real (unat ?v2)) / rnd (real (unat m))"
      using num d by (intro divide_right_mono) simp_all
    then have "rnd (rnd (real (unat ?v1)) / rnd (real (unat m)))
            \<le> rnd (rnd (real (unat ?v2)) / rnd (real (unat m)))"
      using rnd(1) by (rule monoD [rotated])
    then show ?thesis
      using calculate_collateral_ratio_positive_debt [OF rnd(1,3) False] by simp
  qed
qed

theorem calculate_collateral_ratio_monotone_witness:
  "mono (\<lambda>x::real. x)
   \<and> (0::u64) \<le> 50000000 \<and> (1000000::nat) \<le> 2000000
   \<and> collateral_value 65 2000000 < 2 ^ 64
   \<and> calculate_collateral_ratio (\<lambda>x. x) 65000000 0 = Inr f64_MAX
   \<and> calculate_collateral_ratio (\<lambda>x. x) 65000000 50000000 = Inr (13 / 10)
   \<and> 13 / 10 \<le> f64_MAX
   \<and> calculate_collateral_ratio (\<lambda>x. x) (of_nat (collateral_value 65 1000000)) 50000000
       = Inr (13 / 10)
   \<and> calculate_collateral_ratio (\<lambda>x. x) (of_nat (collateral_value 65 2000000)) 50000000
       = Inr (26 / 10)"
  using calculate_collateral_ratio_monotone
    [of "\<lambda>x. x" 0 50000000 1000000 2000000 65 65000000 50000000]
  by (auto simp: calculate_collateral_ratio_def f64_div_def mono_def collateral_value_def)

section \<open>What the operations write\<close>

text \<open>An operation leaves the state it was given or writes one record of the registry.\<close>

lemma mint_bollar_frame:
  "fst (snd (mint_bollar h x caller s i a)) = s
   \<or> (\<exists>cdp'. fst (snd (mint_bollar h x caller s i a))
          = s\<lparr>cdp_registry := AList.update i cdp' (cdp_registry s)\<rparr>)"
  by (auto simp: mint_bollar_def Let_def split: option.split sum.split)

lemma close_cdp_frame:
  "fst (snd (close_cdp x caller s i a)) = s
   \<or> (\<exists>cdp'. fst (snd (close_cdp x caller s i a))
          = s\<lparr>cdp_registry := AList.update i cdp' (cdp_registry s)\<rparr>)"
  by (auto simp: close_cdp_def Let_def split: option.split sum.split)

lemma liquidate_cdp_frame:
  "fst (snd (liquidate_cdp h x caller s i a)) = s
   \<or> (\<exists>cdp'. fst (snd (liquidate_cdp h x caller s i a))
          = s\<lparr>cdp_registry := AList.update i cdp' (cdp_registry s)\<rparr>)"
  by (auto simp: liquidate_cdp_def Let_def split: option.split sum.split)

text \<open>A call that fails leaves the state it was given.\<close>

lemma mint_bollar_failure_keeps_state:
  assumes "fst (mint_bollar h x caller s i a) = Inl e"
  shows "fst (snd (mint_bollar h x caller s i a)) = s"
  using assms by (auto simp: mint_bollar_def Let_def split: option.splits sum.splits if_splits)

lemma close_cdp_failure_keeps_state:
  assumes "fst (close_cdp x caller s i a) = Inl e"
  shows "fst (snd (close_cdp x caller s i a)) = s"
  using assms by (auto simp: close_cdp_def Let_def split: option.splits sum.splits if_splits)

lemma liquidate_cdp_failure_keeps_state:
  assumes "fst (liquidate_cdp h x caller s i a) = Inl e"
  shows "fst (snd (liquidate_cdp h x caller s i a)) = s"
  using assms
  by (auto simp: liquidate_cdp_def Let_def split: option.splits sum.splits if_splits)

section \<open>Minting\<close>

text \<open>
  Whether \<^verbatim>\<open>mint_bollar\<close> accepts an amount depends on the collateral of the position and
  on the price, whatever the helpers are: neither the debt already recorded nor the status
  of the position is read.
\<close>

lemma mint_bollar_decision_ignores_debt_and_status:
  assumes "map_of (cdp_registry s) i = Some cdp"
    and "map_of (cdp_registry s') i = Some (cdp\<lparr>minted_bollar := m, status := st\<rparr>)"
  shows "isl (fst (mint_bollar h x caller s i a)) = isl (fst (mint_bollar h x caller s' i a))"
  using assms by (simp add: mint_bollar_def Let_def split: sum.split)

text \<open>
  For the owner, with the Runes mint answered, the mint is accepted exactly when the amount
  is within \<^verbatim>\<open>calculate_max_mintable(cdp.collateral_amount, current_price)\<close>; beyond it
  the answer is InsufficientCollateral and the state is the one given.
\<close>

lemma mint_bollar_owner:
  assumes "map_of (cdp_registry s) i = Some cdp" "owner cdp = caller"
    and "runes_mint_bollar x = Inr mint_tx"
  shows "(\<exists>r. fst (mint_bollar h x caller s i a) = Inr r)
           \<longleftrightarrow> a \<le> calculate_max_mintable h (collateral_amount cdp) (get_current_price h)"
    and "calculate_max_mintable h (collateral_amount cdp) (get_current_price h) < a
           \<Longrightarrow> mint_bollar h x caller s i a
                 = (Inl (InsufficientCollateral (Requested_exceeds_max a
                      (calculate_max_mintable h (collateral_amount cdp) (get_current_price h)))),
                    s, [])"
  using assms by (auto simp: mint_bollar_def Let_def not_less)

text \<open>
  \<^verbatim>\<open>mint_bollar\<close> has no answer of its own for a missing price, whatever the helpers are
  and whatever the clock reads: a price error can only be the one the Runes mint returned.
\<close>

lemma mint_bollar_price_error_only_from_runes:
  assumes "fst (mint_bollar h x caller s i a) = Inl OraclePriceError"
  shows "runes_mint_bollar x = Inl OraclePriceError"
  using assms by (auto simp: mint_bollar_def Let_def split: option.splits sum.splits if_splits)

text \<open>
  C1. The position of alice is Active, holds 100,000,000 units at price 65,000 and has
  already minted 5,850,000,000,000, all that 9000 bps allow: the bound of the claim is 0.
  \<^verbatim>\<open>mint_bollar\<close> accepts one more unit and records a debt of 5,850,000,000,001.
\<close>

theorem mint_bollar_bound_ignores_minted_bollar:
  "max_mintable 100000000 5850000000000 65000 9000 = 0
   \<and> mint_bollar (spec_helpers default_config 65000) ext_ok ''alice''
        (example_canister 5850000000000 Active) 1 1
     = (Inr \<lparr>tx_hash = ''mint'', new_ratio = 11111\<rparr>,
        (example_canister 5850000000001 Active)\<lparr>total_minted := 5850000000000\<rparr>,
        [Runes_mint ''alice'' 1])"
  by (simp add: mint_bollar_def spec_helpers_def fixture_defs ratio_defs)

text \<open>
  C4. A mint on a position that is Closed, and on one that is Liquidated, returns no error:
  it mints 5,000,000,000,000 and records the debt on the terminal position.
\<close>

theorem mint_bollar_on_terminal_cdp_succeeds:
  "mint_bollar (spec_helpers default_config 65000) ext_ok ''alice''
        (example_canister 0 Closed) 1 5000000000000
     = (Inr \<lparr>tx_hash = ''mint'', new_ratio = 13000\<rparr>,
        (example_canister 5000000000000 Closed)\<lparr>total_minted := 0\<rparr>,
        [Runes_mint ''alice'' 5000000000000])
   \<and> mint_bollar (spec_helpers default_config 65000) ext_ok ''alice''
        (example_canister 0 Liquidated) 1 5000000000000
     = (Inr \<lparr>tx_hash = ''mint'', new_ratio = 13000\<rparr>,
        (example_canister 5000000000000 Liquidated)\<lparr>total_minted := 0\<rparr>,
        [Runes_mint ''alice'' 5000000000000])"
  by (simp add: mint_bollar_def spec_helpers_def fixture_defs ratio_defs)

section \<open>Closing\<close>

lemma close_cdp_active_owner:
  assumes "map_of (cdp_registry s) i = Some cdp" "owner cdp = caller" "status cdp = Active"
    and "runes_burn_bollar x = Inr burn_tx" "release_btc_collateral x = Inr release_tx"
  shows "close_cdp x caller s i a =
     (if a < minted_bollar cdp
      then (Inl (InsufficientCollateral (Text ''Insufficient Bollar to close CDP'')), s, [])
      else (Inr \<lparr>btc_release_tx = release_tx, bollar_burn_tx = burn_tx,
                 released_amount = collateral_amount cdp\<rparr>,
            s\<lparr>cdp_registry := AList.update i (cdp\<lparr>status := Closed\<rparr>) (cdp_registry s)\<rparr>,
            [Runes_burn (owner cdp) (minted_bollar cdp),
             Release_btc (btc_tx_hash cdp) (owner cdp)]))"
  using assms by (simp add: close_cdp_def)

text \<open>A close on a position that is not Active is refused, whoever else is right.\<close>

lemma close_cdp_terminal:
  assumes "map_of (cdp_registry s) i = Some cdp" "owner cdp = caller" "status cdp \<noteq> Active"
  shows "close_cdp x caller s i a = (Inl CDPAlreadyLiquidated, s, [])"
  using assms by (simp add: close_cdp_def)

text \<open>
  On an Active position owned by the caller, when the Runes burn and the release of the
  collateral are answered, \<^verbatim>\<open>close_cdp\<close> succeeds if and only if
  \<^verbatim>\<open>bollar_amount >= minted_bollar\<close>; it then releases the whole collateral to the owner and
  the position is Closed. No price and no helper takes part in it.
\<close>

lemma close_cdp_full_repayment:
  assumes "map_of (cdp_registry s) i = Some cdp" "owner cdp = caller" "status cdp = Active"
    and "runes_burn_bollar x = Inr burn_tx" "release_btc_collateral x = Inr release_tx"
  shows "((\<exists>r. fst (close_cdp x caller s i a) = Inr r) \<longleftrightarrow> minted_bollar cdp \<le> a)
     \<and> (minted_bollar cdp \<le> a \<longrightarrow>
          fst (close_cdp x caller s i a) =
            Inr \<lparr>btc_release_tx = release_tx, bollar_burn_tx = burn_tx,
                  released_amount = collateral_amount cdp\<rparr>
          \<and> map_option status (map_of (cdp_registry (fst (snd (close_cdp x caller s i a)))) i)
              = Some Closed
          \<and> snd (snd (close_cdp x caller s i a)) =
             [Runes_burn (owner cdp) (minted_bollar cdp),
              Release_btc (btc_tx_hash cdp) (owner cdp)])
     \<and> (a < minted_bollar cdp \<longrightarrow>
          close_cdp x caller s i a =
            (Inl (InsufficientCollateral (Text ''Insufficient Bollar to close CDP'')), s, []))"
  unfolding close_cdp_active_owner [OF assms] by (auto simp: not_less update_conv')

text \<open>
  Whatever the debt, the record of a position that \<^verbatim>\<open>close_cdp\<close> has closed carries the
  \<^verbatim>\<open>minted_bollar\<close> it carried before.
\<close>

lemma close_cdp_keeps_minted_bollar:
  assumes "map_of (cdp_registry s) i = Some cdp"
    and "fst (close_cdp x caller s i a) = Inr r"
  shows "map_of (cdp_registry (fst (snd (close_cdp x caller s i a)))) i
           = Some (cdp\<lparr>status := Closed\<rparr>)"
  using assms
  by (auto simp: close_cdp_def Let_def update_conv' split: if_splits sum.splits)

text \<open>
  C7. Alice closes her Active position of debt 1000 with 1000 Bollar. The close succeeds,
  1000 Bollar are burned for her and 100,000,000 is released, the position is Closed; the
  record still carries \<^verbatim>\<open>minted_bollar\<close> = 1000.
\<close>

theorem close_cdp_leaves_minted_bollar_on_record:
  "fst (close_cdp ext_ok ''alice'' (example_canister 1000 Active) 1 1000)
     = Inr \<lparr>btc_release_tx = ''release'', bollar_burn_tx = ''burn'',
            released_amount = 100000000\<rparr>
   \<and> snd (snd (close_cdp ext_ok ''alice'' (example_canister 1000 Active) 1 1000))
     = [Runes_burn ''alice'' 1000, Release_btc ''tx'' ''alice'']
   \<and> map_of (cdp_registry (fst (snd
        (close_cdp ext_ok ''alice'' (example_canister 1000 Active) 1 1000)))) 1
     = Some (example_cdp 1000 Closed)
   \<and> minted_bollar (example_cdp 1000 Closed) = 1000"
  by (simp add: close_cdp_def fixture_defs)

section \<open>Liquidation\<close>

text \<open>
  What a successful \<^verbatim>\<open>liquidate_cdp\<close> does, whatever the helpers are: it reports the
  reward, transfers the collateral less the reward to the caller, and has no other
  transfer.
\<close>

lemma liquidate_cdp_effects:
  assumes "map_of (cdp_registry s) i = Some cdp"
    and "fst (liquidate_cdp h x caller s i a) = Inr r"
  shows "liquidation_reward r = calculate_liquidation_reward h cdp
       \<and> btc_transferred r = collateral_amount cdp - calculate_liquidation_reward h cdp
       \<and> bollar_burned r = minted_bollar cdp
       \<and> snd (snd (liquidate_cdp h x caller s i a))
           = [Runes_burn caller (minted_bollar cdp),
              Transfer_btc (btc_tx_hash cdp) caller
                (collateral_amount cdp - calculate_liquidation_reward h cdp),
              Audit_liquidation i caller (calculate_liquidation_reward h cdp)]"
  using assms by (auto simp: liquidate_cdp_def Let_def split: if_splits sum.splits)


text \<open>
  \<^verbatim>\<open>liquidate_cdp\<close> has no answer of its own for a missing price: a price error can only
  be the one a collaborator returned.
\<close>

lemma liquidate_cdp_price_error_only_from_collaborators:
  assumes "fst (liquidate_cdp h x caller s i a) = Inl OraclePriceError"
  shows "runes_balance_of x = Inl OraclePriceError
       \<or> runes_burn_bollar x = Inl OraclePriceError
       \<or> transfer_btc_to_liquidator x = Inl OraclePriceError"
  using assms
  by (auto simp: liquidate_cdp_def Let_def split: option.splits sum.splits if_splits)

text \<open>
  C2. The position of alice holds 100,000,000 units, the penalty is 500 bps; bob
  liquidates it. The reward is 5,000,000, but what is transferred to bob, the liquidator,
  is the remainder 95,000,000, and nothing is transferred to alice, the owner.
\<close>

theorem liquidate_cdp_transfers_remainder_to_liquidator:
  "liquidate_cdp (spec_helpers default_config 40000) ext_ok ''bob''
        (example_canister 5000000000000 Active) 1 5000000000000
     = (Inr \<lparr>bollar_burned = 5000000000000, btc_transferred = 95000000,
             liquidation_reward = 5000000\<rparr>,
        example_canister 5000000000000 Liquidated,
        [Runes_burn ''bob'' 5000000000000, Transfer_btc ''tx'' ''bob'' 95000000,
         Audit_liquidation 1 ''bob'' 5000000])
   \<and> owner (example_cdp 5000000000000 Active) = ''alice''"
  by (simp add: liquidate_cdp_def spec_helpers_def fixture_defs ratio_defs)



section \<open>The price feed and the operations\<close>

text \<open>
  C8. The only sample was observed at time 0 and the clock reads 1,000,000 seconds later,
  far beyond the extended window: no valid sample exists. At that clock \<^verbatim>\<open>mint_bollar\<close>
  does not answer with a price error, whatever the helpers, the state, the caller and the
  amount are; and when \<^verbatim>\<open>get_current_price()\<close> hands it the last price, it mints
  5,000,000,000,000 against it.
\<close>

theorem mint_bollar_succeeds_on_stale_price:
  "price_unavailable stale_sample (time ext_late)
   \<and> fst (mint_bollar h ext_late caller s i a) \<noteq> Inl OraclePriceError
   \<and> mint_bollar
        (spec_helpers default_config (last_valid_price stale_sample (time ext_late)))
        ext_late ''alice'' (example_canister 0 Active) 1 5000000000000
     = (Inr \<lparr>tx_hash = ''mint'', new_ratio = 13000\<rparr>,
        (example_canister 0 Active)\<lparr>cdp_registry :=
           [(1, (example_cdp 5000000000000 Active)\<lparr>last_updated := 1000000000000000\<rparr>)]\<rparr>,
        [Runes_mint ''alice'' 5000000000000])"
proof (intro conjI)
  show "price_unavailable stale_sample (time ext_late)"
    by (simp add: price_unavailable_def stale_sample_def ext_late_def ext_ok_def)
  have "runes_mint_bollar ext_late \<noteq> Inl OraclePriceError"
    by (simp add: ext_late_def ext_ok_def)
  then show "fst (mint_bollar h ext_late caller s i a) \<noteq> Inl OraclePriceError"
    using mint_bollar_price_error_only_from_runes [of h ext_late caller s i a] by blast
  show "mint_bollar
        (spec_helpers default_config (last_valid_price stale_sample (time ext_late)))
        ext_late ''alice'' (example_canister 0 Active) 1 5000000000000
     = (Inr \<lparr>tx_hash = ''mint'', new_ratio = 13000\<rparr>,
        (example_canister 0 Active)\<lparr>cdp_registry :=
           [(1, (example_cdp 5000000000000 Active)\<lparr>last_updated := 1000000000000000\<rparr>)]\<rparr>,
        [Runes_mint ''alice'' 5000000000000])"
    by (simp add: mint_bollar_def spec_helpers_def fixture_defs ratio_defs
        last_valid_price_def stale_sample_def ext_late_def)
qed

end
